theory Spec2Isabelle
  imports Complex_Main "HOL-Library.Sublist"
begin

section \<open>Strings\<close>

text \<open>
  A Python \<^verbatim>\<open>str\<close> is modelled as an Isabelle \<^typ>\<open>string\<close> whose characters stand
  for the code points 0 to 255. On that range \<^verbatim>\<open>str.isspace\<close> holds for the code points
  9 to 13, 28 to 32, 133 and 160, and \<^verbatim>\<open>str.lower\<close> adds 32 to the code points
  65 to 90 and 192 to 222 (215 excepted) and leaves every other character alone.
\<close>

definition str_isspace :: "char \<Rightarrow> bool" where
  "str_isspace c =
     (let n = (of_char c :: nat)
      in (9 \<le> n \<and> n \<le> 13) \<or> (28 \<le> n \<and> n \<le> 32) \<or> n = 133 \<or> n = 160)"

definition str_lower_char :: "char \<Rightarrow> char" where
  "str_lower_char c =
     (let n = (of_char c :: nat)
      in if (65 \<le> n \<and> n \<le> 90) \<or> (192 \<le> n \<and> n \<le> 222 \<and> n \<noteq> 215)
         then char_of (n + 32) else c)"

definition str_lower :: "string \<Rightarrow> string" where
  "str_lower s = map str_lower_char s"

definition str_strip :: "string \<Rightarrow> string" where
  "str_strip s = rev (dropWhile str_isspace (rev (dropWhile str_isspace s)))"

section \<open>Address normalisation (scoring_model.py, lines 25 and 35 to 46)\<close>

text \<open>The character class \<^verbatim>\<open>[a-f0-9]\<close> of \<^verbatim>\<open>ETH_ADDRESS_RE\<close>.\<close>

definition in_a_f_0_9 :: "char \<Rightarrow> bool" where
  "in_a_f_0_9 c =
     (let n = (of_char c :: nat) in (97 \<le> n \<and> n \<le> 102) \<or> (48 \<le> n \<and> n \<le> 57))"

text \<open>
  \<^verbatim>\<open>ETH_ADDRESS_RE.fullmatch(s)\<close> for the pattern \<^verbatim>\<open>^0x[a-f0-9]{40}$\<close>: the whole string
  has to be consumed, so nothing may follow the forty digits.
\<close>

definition ETH_ADDRESS_RE_fullmatch :: "string \<Rightarrow> bool" where
  "ETH_ADDRESS_RE_fullmatch s =
     (case s of
        c0 # c1 # rest \<Rightarrow>
          c0 = CHR ''0'' \<and> c1 = CHR ''x'' \<and> length rest = 40 \<and> list_all in_a_f_0_9 rest
      | _ \<Rightarrow> False)"

datatype error = ValueError string

definition normalize_address :: "string \<Rightarrow> error + string" where
  "normalize_address address =
     (let a = str_lower (str_strip address)
      in if \<not> ETH_ADDRESS_RE_fullmatch a
         then Inl (ValueError ''Invalid Ethereum address format'')
         else Inr a)"

definition table_name :: "string \<Rightarrow> string \<Rightarrow> error + string" where
  "table_name address table_kind =
     (case normalize_address address of
        Inl e \<Rightarrow> Inl e
      | Inr a \<Rightarrow>
          (let suffix = drop 2 a
           in if table_kind \<notin> {''tx'', ''erc20''}
              then Inl (ValueError (''table_kind must be 'tx' or 'erc20'' @ [CHR 0x27]))
              else Inr (table_kind @ ''_'' @ suffix)))"

text \<open>
  The pattern in the words of the specification: \<^verbatim>\<open>0x\<close> followed by exactly forty
  hexadecimal digits (\<^verbatim>\<open>0-9\<close>, \<^verbatim>\<open>a-f\<close>, \<^verbatim>\<open>A-F\<close>).
\<close>

definition hex_digit :: "char \<Rightarrow> bool" where
  "hex_digit c =
     (let n = (of_char c :: nat)
      in (48 \<le> n \<and> n \<le> 57) \<or> (97 \<le> n \<and> n \<le> 102) \<or> (65 \<le> n \<and> n \<le> 70))"

definition canonical_pattern :: "string \<Rightarrow> bool" where
  "canonical_pattern s =
     (length s = 42 \<and> take 2 s = ''0x'' \<and> list_all hex_digit (drop 2 s))"

section \<open>Numbers\<close>

text \<open>
  Python floats are idealised as real numbers: \<^verbatim>\<open>np.log\<close>, \<^verbatim>\<open>np.log10\<close> and \<^verbatim>\<open>np.exp\<close>
  are \<^term>\<open>ln\<close>, \<^term>\<open>log 10\<close> and \<^term>\<open>exp\<close>, and the arithmetic is exact.
  \<^verbatim>\<open>round(x, 2)\<close> takes the nearest multiple of one hundredth and, on a tie, the one
  whose last digit is even.
\<close>

definition round_half_even :: "real \<Rightarrow> int" where
  "round_half_even y =
     (let f = \<lfloor>y\<rfloor>; d = y - of_int f
      in if d < 1 / 2 then f
         else if 1 / 2 < d then f + 1
         else if even f then f else f + 1)"

definition py_round2 :: "real \<Rightarrow> real" where
  "py_round2 x = of_int (round_half_even (x * 100)) / 100"

definition np_clip :: "real \<Rightarrow> real \<Rightarrow> real \<Rightarrow> real" where
  "np_clip x lo hi = min (max x lo) hi"

section \<open>Data frames and the outside world\<close>

text \<open>
  A transaction frame is the list of its rows together with the presence of the \<^verbatim>\<open>to\<close>
  column, the only column whose presence the scoring code tests. A row carries the
  fields the indicators read: the timestamp in seconds (column \<^verbatim>\<open>timeStamp\<close>, from which
  \<^verbatim>\<open>datetime\<close> is derived), the recipient and the value in wei, a natural number, from
  which \<^verbatim>\<open>value_eth\<close> is derived. The fields hold the values after the numeric coercion
  of the loader; a timestamp that does not parse is outside the model. The \<^verbatim>\<open>from\<close>
  column is never read after loading and is left out. \<^verbatim>\<open>df.empty\<close> is the absence of
  rows.
\<close>

record tx_row =
  timeStamp :: int
  tx_to :: string
  tx_value :: nat

record tx_frame =
  tx_has_to :: bool
  tx_rows :: "tx_row list"

record erc20_row =
  contractAddress :: string
  tokenSymbol :: string

record erc20_frame =
  erc20_has_contractAddress :: bool
  erc20_rows :: "erc20_row list"

definition empty_tx_frame :: tx_frame where
  "empty_tx_frame = \<lparr>tx_has_to = False, tx_rows = []\<rparr>"

definition empty_erc20_frame :: erc20_frame where
  "empty_erc20_frame = \<lparr>erc20_has_contractAddress = False, erc20_rows = []\<rparr>"

definition value_eth :: "tx_row \<Rightarrow> real" where
  "value_eth r = real (tx_value r) / 10 ^ 18"

text \<open>
  What a \<^verbatim>\<open>SELECT *\<close> on a table gives: the table saved for an address without data has
  the single column \<^verbatim>\<open>empty_flag\<close>; a missing table or database makes the query raise,
  which is \<^term>\<open>None\<close> in the two table maps below.
\<close>

datatype 'a stored = EmptyFlag | Stored 'a

text \<open>
  A label record of the label service is a dictionary from keys to lists of strings
  (or \<^verbatim>\<open>None\<close>); the first binding of a key counts. The outcome of one request is either
  a failure (network, time-out, a body that is not JSON) or the \<^verbatim>\<open>status\<close> and \<^verbatim>\<open>result\<close>
  of the reply.
\<close>

type_synonym tag_obj = "(string \<times> string list option) list"

datatype http_outcome = RequestFails | Reply string "tag_obj list"

record env =
  ETHERSCAN_API_KEY :: "string option"
  tx_tables :: "string \<Rightarrow> tx_frame stored option"
  erc20_tables :: "string \<Rightarrow> erc20_frame stored option"
  etherscan :: "string \<Rightarrow> http_outcome"
  now_utc :: int

definition api_key_set :: "env \<Rightarrow> bool" where
  "api_key_set E = (case ETHERSCAN_API_KEY E of None \<Rightarrow> False | Some k \<Rightarrow> k \<noteq> [])"

section \<open>Record store adapter (scoring_model.py, lines 48 to 90)\<close>

definition fetch_tx_from_db :: "env \<Rightarrow> string \<Rightarrow> error + tx_frame" where
  "fetch_tx_from_db E address =
     (case table_name address ''tx'' of
        Inl e \<Rightarrow> Inl e
      | Inr tname \<Rightarrow>
          Inr (case tx_tables E tname of
                 None \<Rightarrow> empty_tx_frame
               | Some EmptyFlag \<Rightarrow> empty_tx_frame
               | Some (Stored df) \<Rightarrow>
                   if tx_rows df = [] then empty_tx_frame
                   else if tx_has_to df
                   then df\<lparr>tx_rows := map (\<lambda>r. r\<lparr>tx_to := str_lower (tx_to r)\<rparr>) (tx_rows df)\<rparr>
                   else df))"

definition fetch_erc20_from_db :: "env \<Rightarrow> string \<Rightarrow> error + erc20_frame" where
  "fetch_erc20_from_db E address =
     (case table_name address ''erc20'' of
        Inl e \<Rightarrow> Inl e
      | Inr tname \<Rightarrow>
          Inr (case erc20_tables E tname of
                 None \<Rightarrow> empty_erc20_frame
               | Some EmptyFlag \<Rightarrow> empty_erc20_frame
               | Some (Stored df) \<Rightarrow>
                   if erc20_rows df = [] then empty_erc20_frame
                   else if erc20_has_contractAddress df
                   then df\<lparr>erc20_rows :=
                          map (\<lambda>r. r\<lparr>contractAddress := str_lower (contractAddress r)\<rparr>)
                            (erc20_rows df)\<rparr>
                   else df))"

section \<open>Reputation label lookup (scoring_model.py, lines 95 to 158)\<close>

definition get_etherscan_address_tag :: "env \<Rightarrow> string \<Rightarrow> error + tag_obj option" where
  "get_etherscan_address_tag E address =
     (if \<not> api_key_set E then Inr None
      else case normalize_address address of
             Inl e \<Rightarrow> Inl e
           | Inr a \<Rightarrow>
               Inr (case etherscan E a of
                      RequestFails \<Rightarrow> None
                    | Reply status result \<Rightarrow>
                        if status = ''1'' \<and> result \<noteq> [] then Some (hd result) else None))"

text \<open>\<^verbatim>\<open>sep.join(xs)\<close> and the substring test \<^verbatim>\<open>m in s\<close> of Python strings.\<close>

fun str_join :: "string \<Rightarrow> string list \<Rightarrow> string" where
  "str_join sep [] = []"
| "str_join sep [x] = x"
| "str_join sep (x # y # ys) = x @ sep @ str_join sep (y # ys)"

primrec str_in :: "string \<Rightarrow> string \<Rightarrow> bool" where
  "str_in m [] = (m = [])"
| "str_in m (c # s) = (prefix m (c # s) \<or> str_in m s)"

definition scam_markers :: "string list" where
  "scam_markers =
     [''phish'', ''hack'', ''scam'', ''drainer'', ''malicious'', ''exploit'', ''fraud'',
      ''blacklist'', ''ofac'']"

definition tag_get :: "tag_obj \<Rightarrow> string \<Rightarrow> string list" where
  "tag_get t key = (case map_of t key of Some (Some l) \<Rightarrow> l | _ \<Rightarrow> [])"

definition is_scam_label :: "tag_obj option \<Rightarrow> bool" where
  "is_scam_label tag =
     (case tag of
        None \<Rightarrow> False
      | Some t \<Rightarrow>
          if t = [] then False
          else
            (let labels = tag_get t ''labels'';
                 labels_slug = tag_get t ''labels_slug'';
                 labels_norm = str_join '' '' (map str_lower labels);
                 slugs_norm = str_join '' '' (map str_lower labels_slug)
             in list_ex (\<lambda>m. str_in m labels_norm) scam_markers \<or>
                list_ex (\<lambda>m. str_in m slugs_norm) scam_markers))"

text \<open>The distinct elements of a list in the order of their first occurrence.\<close>

definition first_seen :: "'a list \<Rightarrow> 'a list" where
  "first_seen xs = rev (remdups (rev xs))"

text \<open>
  Modelled from the spec: the order of \<^verbatim>\<open>Series.value_counts()\<close>, a function of the pandas
  library and not of this repository. The distinct values are ranked by occurrence count,
  largest first, and values with equal counts stay in the order of their first occurrence.
\<close>

definition value_counts :: "string list \<Rightarrow> (string \<times> nat) list" where
  "value_counts xs =
     sort_key (\<lambda>p. - int (snd p)) (map (\<lambda>v. (v, count_list xs v)) (first_seen xs))"

text \<open>The loop of \<^verbatim>\<open>detect_tagged_scam_counterparties\<close> over the candidates.\<close>

fun scan_candidates :: "env \<Rightarrow> string list \<Rightarrow> string list \<Rightarrow> error + string list" where
  "scan_candidates E [] tagged = Inr tagged"
| "scan_candidates E (addr # rest) tagged =
     (if \<not> ETH_ADDRESS_RE_fullmatch addr then scan_candidates E rest tagged
      else case get_etherscan_address_tag E addr of
             Inl e \<Rightarrow> Inl e
           | Inr tag \<Rightarrow>
               scan_candidates E rest (if is_scam_label tag then tagged @ [addr] else tagged))"

definition detect_tagged_scam_counterparties ::
  "env \<Rightarrow> tx_frame \<Rightarrow> nat \<Rightarrow> error + nat \<times> string list" where
  "detect_tagged_scam_counterparties E df_tx max_to_check =
     (if tx_rows df_tx = [] \<or> \<not> tx_has_to df_tx \<or> \<not> api_key_set E then Inr (0, [])
      else
        (let top_to =
               map fst (take max_to_check
                 (value_counts (map (\<lambda>r. str_lower (tx_to r)) (tx_rows df_tx))))
         in case scan_candidates E top_to [] of
              Inl e \<Rightarrow> Inl e
            | Inr tagged \<Rightarrow> Inr (length tagged, take 10 tagged)))"

section \<open>Indicators (scoring_model.py, lines 163 to 242)\<close>

definition calculate_longevity_score :: "int \<Rightarrow> tx_frame \<Rightarrow> real" where
  "calculate_longevity_score now df_tx =
     (if tx_rows df_tx = [] then 0
      else
        (let first_tx = Min (set (map timeStamp (tx_rows df_tx)));
             days = max ((now - first_tx) div 86400) 0;
             denom = ln (730 + 1);
             score = (if denom > 0 then ln (of_int days + 1) / denom * 100 else 0)
         in py_round2 (min score 100)))"

definition calculate_activity_score :: "tx_frame \<Rightarrow> real" where
  "calculate_activity_score df_tx =
     (if tx_rows df_tx = [] then 0
      else
        (let tx_count = length (tx_rows df_tx);
             volume_eth = sum_list (map value_eth (tx_rows df_tx));
             MAX_TX = 5000;
             MAX_VOL = 10000;
             tx_norm = log 10 (real tx_count + 1) / log 10 (MAX_TX + 1);
             vol_norm = log 10 (volume_eth + 1) / log 10 (MAX_VOL + 1);
             tx_norm = np_clip tx_norm 0 1;
             vol_norm = np_clip vol_norm 0 1
         in py_round2 ((0.5 * tx_norm + 0.5 * vol_norm) * 100)))"

definition calculate_diversity_score :: "tx_frame \<Rightarrow> real" where
  "calculate_diversity_score df_tx =
     (if tx_rows df_tx = [] then 0
      else
        (let unique_to =
               (if tx_has_to df_tx then length (remdups (map tx_to (tx_rows df_tx))) else 0);
             THRESHOLD = (25 :: real);
             score = (if THRESHOLD > 0 then min 100 (real unique_to / THRESHOLD * 100) else 0)
         in py_round2 score))"

definition KNOWN_SCAM_ADDRESSES :: "string set" where
  "KNOWN_SCAM_ADDRESSES =
     {''0xdeadbeefdeadbeefdeadbeefdeadbeefdeadbeef'',
      ''0x1234567812345678123456781234567812345678''}"

definition calculate_general_risk_score :: "tx_frame \<Rightarrow> nat \<Rightarrow> real" where
  "calculate_general_risk_score df_tx tagged_scam_count =
     (if tx_rows df_tx = [] then 100
      else
        (let incidents_list =
               (if tx_has_to df_tx
                then length (filter (\<lambda>r. tx_to r \<in> KNOWN_SCAM_ADDRESSES) (tx_rows df_tx))
                else 0);
             incidents = incidents_list + tagged_scam_count;
             lam = 0.9;
             score = 100 * exp (- lam * real incidents)
         in py_round2 (np_clip score 0 100)))"

definition MIXER_OR_PRIVACY_TOOLING :: "string set" where
  "MIXER_OR_PRIVACY_TOOLING =
     {''0x1111111111111111111111111111111111111111'',
      ''0x2222222222222222222222222222222222222222''}"

definition PRIVACY_TOKEN_CONTRACTS :: "string set" where
  "PRIVACY_TOKEN_CONTRACTS =
     {''0xaaaaaaaaaaaaaaaaaaaaaaaaaaaaaaaaaaaaaaaa'',
      ''0xbbbbbbbbbbbbbbbbbbbbbbbbbbbbbbbbbbbbbbbb''}"

definition calculate_asset_risk_score :: "tx_frame \<Rightarrow> erc20_frame \<Rightarrow> real" where
  "calculate_asset_risk_score df_tx df_erc20 =
     (let incidents_tools =
            (if tx_rows df_tx \<noteq> [] \<and> tx_has_to df_tx
             then length (filter (\<lambda>r. tx_to r \<in> MIXER_OR_PRIVACY_TOOLING) (tx_rows df_tx))
             else 0);
          incidents_tokens =
            (if erc20_rows df_erc20 \<noteq> [] \<and> erc20_has_contractAddress df_erc20
             then length (filter (\<lambda>r. contractAddress r \<in> PRIVACY_TOKEN_CONTRACTS)
                            (erc20_rows df_erc20))
             else 0);
          incidents = incidents_tools + incidents_tokens;
          lam = 0.6;
          score = 100 * exp (- lam * real incidents)
      in py_round2 (np_clip score 0 100))"

section \<open>Final score (scoring_model.py, lines 16 to 33 and 247 to 293)\<close>

datatype indicator =
  Activity_Score | Longevity_Score | Diversity_Score | General_Risk_Score | Asset_Risk_Score

definition WEIGHTS :: "(indicator \<times> int) list" where
  "WEIGHTS =
     [(Activity_Score, 25), (Longevity_Score, 20), (Diversity_Score, 25),
      (General_Risk_Score, 25), (Asset_Risk_Score, 5)]"

definition INDICATOR_ORDER :: "indicator list" where
  "INDICATOR_ORDER =
     [Activity_Score, Longevity_Score, Diversity_Score, General_Risk_Score, Asset_Risk_Score]"

fun indicator_name :: "indicator \<Rightarrow> string" where
  "indicator_name Activity_Score = ''Activity_Score''"
| "indicator_name Longevity_Score = ''Longevity_Score''"
| "indicator_name Diversity_Score = ''Diversity_Score''"
| "indicator_name General_Risk_Score = ''General_Risk_Score''"
| "indicator_name Asset_Risk_Score = ''Asset_Risk_Score''"

text \<open>
  The values a result dictionary holds. A dictionary is the list of its items in insertion
  order; the dictionary \<^verbatim>\<open>indicators\<close>, which always has the five keys, is a function on
  \<^typ>\<open>indicator\<close>.
\<close>

datatype pyval =
  PyStr string | PyInt int | PyFloat real | PyList "pyval list" | PyDict "(string \<times> pyval) list"

type_synonym pydict = "(string \<times> pyval) list"

definition indicator_values ::
  "env \<Rightarrow> tx_frame \<Rightarrow> erc20_frame \<Rightarrow> nat \<Rightarrow> indicator \<Rightarrow> real" where
  "indicator_values E df_tx df_erc20 tagged_scam_count k =
     (case k of
        Activity_Score \<Rightarrow> calculate_activity_score df_tx
      | Longevity_Score \<Rightarrow> calculate_longevity_score (now_utc E) df_tx
      | Diversity_Score \<Rightarrow> calculate_diversity_score df_tx
      | General_Risk_Score \<Rightarrow> calculate_general_risk_score df_tx tagged_scam_count
      | Asset_Risk_Score \<Rightarrow> calculate_asset_risk_score df_tx df_erc20)"

text \<open>Lines 270 to 293: the weighted sum, the profile and the result dictionary.\<close>

definition weighted_score :: "(indicator \<Rightarrow> real) \<Rightarrow> real" where
  "weighted_score indicators =
     sum_list (map (\<lambda>(k, w). indicators k * of_int w) WEIGHTS) / 100"

definition profile_of :: "real \<Rightarrow> string" where
  "profile_of final_score =
     (if final_score \<ge> 85 then ''Power User - High Reputation''
      else if final_score \<ge> 60 then ''Stable User - Medium Reputation''
      else if final_score \<ge> 30 then ''Inactive/New User - Low Reputation''
      else ''Low Trust / Risk-Exposed Wallet'')"

definition score_result ::
  "env \<Rightarrow> string \<Rightarrow> (indicator \<Rightarrow> real) \<Rightarrow> nat \<Rightarrow> string list \<Rightarrow> pydict" where
  "score_result E a indicators tagged_scam_count tagged_sample =
     (let final_score = weighted_score indicators;
          profile = profile_of final_score
      in [(''address'', PyStr a),
          (''status'', PyStr ''OK''),
          (''final_score'', PyFloat (py_round2 final_score)),
          (''profile'', PyStr profile),
          (''indicators'',
             PyDict (map (\<lambda>k. (indicator_name k, PyFloat (indicators k))) INDICATOR_ORDER)),
          (''weights'', PyDict (map (\<lambda>(k, w). (indicator_name k, PyInt w)) WEIGHTS)),
          (''diagnostics'',
             PyDict
               [(''scam_counterparties_detected'', PyInt (int tagged_scam_count)),
                (''scam_addresses_sample'', PyList (map PyStr tagged_sample)),
                (''tags_source'',
                   PyStr (if api_key_set E then ''etherscan_getaddresstag''
                          else ''not_configured''))])])"

definition calculate_final_score :: "env \<Rightarrow> string \<Rightarrow> error + pydict" where
  "calculate_final_score E address =
     (case normalize_address address of
        Inl (ValueError e) \<Rightarrow>
          Inr [(''address'', PyStr address), (''status'', PyStr e),
               (''final_score'', PyInt 0), (''indicators'', PyDict [])]
      | Inr a \<Rightarrow>
          (case fetch_tx_from_db E a of
             Inl e \<Rightarrow> Inl e
           | Inr df_tx \<Rightarrow>
               if tx_rows df_tx = []
               then Inr [(''address'', PyStr a),
                         (''status'', PyStr ''Error: Could not load tx data. Check ingestion step.''),
                         (''final_score'', PyInt 0), (''indicators'', PyDict [])]
               else
                 (case fetch_erc20_from_db E a of
                    Inl e \<Rightarrow> Inl e
                  | Inr df_erc20 \<Rightarrow>
                      (case detect_tagged_scam_counterparties E df_tx 40 of
                         Inl e \<Rightarrow> Inl e
                       | Inr (tagged_scam_count, tagged_sample) \<Rightarrow>
                           Inr (score_result E a
                                  (indicator_values E df_tx df_erc20 tagged_scam_count)
                                  tagged_scam_count tagged_sample)))))"

section \<open>Notions used to state the properties\<close>

text \<open>
  A score that is the rounding to two decimal places of a value already inside the
  range from 0 to 100.
\<close>

definition rounded_score :: "real \<Rightarrow> bool" where
  "rounded_score v = (\<exists>c. 0 \<le> c \<and> c \<le> 100 \<and> v = py_round2 c)"

text \<open>
  A label string contains a marker when, once lowercased, it has one of the nine markers
  as a contiguous substring; the label strings of a lookup result are its labels followed
  by its label slugs.
\<close>

definition contains_marker :: "string \<Rightarrow> bool" where
  "contains_marker s = (\<exists>m \<in> set scam_markers. sublist m (str_lower s))"

definition label_strings :: "tag_obj option \<Rightarrow> string list" where
  "label_strings tag =
     (case tag of None \<Rightarrow> [] | Some t \<Rightarrow> tag_get t ''labels'' @ tag_get t ''labels_slug'')"


definition ranked :: "string list \<Rightarrow> string list" where
  "ranked xs = map fst (value_counts xs)"



text \<open>The dictionary returned when no transaction is stored for the address.\<close>

definition no_data_result :: "string \<Rightarrow> pydict" where
  "no_data_result a =
     [(''address'', PyStr a),
      (''status'', PyStr ''Error: Could not load tx data. Check ingestion step.''),
      (''final_score'', PyInt 0), (''indicators'', PyDict [])]"

section \<open>Concrete inputs\<close>




definition addr_d :: string where "addr_d = ''0x00000000000000000000000000000000000000dd''"







text \<open>
  A store whose transaction table for the address is the empty marker table while token
  transfers exist.
\<close>

definition nodata_env :: env where
  "nodata_env =
     \<lparr>ETHERSCAN_API_KEY = Some ''key'',
      tx_tables = (\<lambda>t. if t = ''tx_'' @ drop 2 addr_d then Some EmptyFlag else None),
      erc20_tables =
        (\<lambda>t. Some (Stored \<lparr>erc20_has_contractAddress = True,
                 erc20_rows = [\<lparr>contractAddress = ''0xaaaaaaaaaaaaaaaaaaaaaaaaaaaaaaaaaaaaaaaa'',
                                tokenSymbol = ''PRV''\<rparr>]\<rparr>)),
      etherscan = (\<lambda>a. RequestFails),
      now_utc = 1700000000\<rparr>"

section \<open>Properties of normalisation\<close>

lemma in_a_f_0_9_not_space: "in_a_f_0_9 c \<Longrightarrow> \<not> str_isspace c"
  by (auto simp: in_a_f_0_9_def str_isspace_def Let_def)

lemma in_a_f_0_9_lower: "in_a_f_0_9 c \<Longrightarrow> str_lower_char c = c"
  by (auto simp: in_a_f_0_9_def str_lower_char_def Let_def)

lemma lower_char_not_upper:
  "\<not> (65 \<le> (of_char (str_lower_char c) :: nat) \<and> (of_char (str_lower_char c) :: nat) \<le> 90)"
  by (auto simp: str_lower_char_def Let_def)

lemma hex_digit_lower_char:
  "hex_digit (str_lower_char c) \<longleftrightarrow> in_a_f_0_9 (str_lower_char c)"
  using lower_char_not_upper [of c]
  by (auto simp: hex_digit_def in_a_f_0_9_def Let_def)

lemma list_all_hex_lower:
  "list_all hex_digit (str_lower s) \<longleftrightarrow> list_all in_a_f_0_9 (str_lower s)"
  by (induction s) (simp_all add: str_lower_def hex_digit_lower_char)

lemma fullmatch_iff:
  "ETH_ADDRESS_RE_fullmatch s \<longleftrightarrow>
     length s = 42 \<and> take 2 s = ''0x'' \<and> list_all in_a_f_0_9 (drop 2 s)"
proof (cases s)
  case Nil
  then show ?thesis by (simp add: ETH_ADDRESS_RE_fullmatch_def)
next
  case (Cons c0 t)
  show ?thesis
  proof (cases t)
    case Nil
    with Cons show ?thesis by (simp add: ETH_ADDRESS_RE_fullmatch_def)
  next
    case (Cons c1 rest)
    with \<open>s = c0 # t\<close> show ?thesis
      by (auto simp: ETH_ADDRESS_RE_fullmatch_def)
  qed
qed

lemma fullmatch_canonical_lower:
  "ETH_ADDRESS_RE_fullmatch (str_lower s) \<longleftrightarrow> canonical_pattern (str_lower s)"
proof -
  have "drop 2 (str_lower s) = str_lower (drop 2 s)"
    by (simp add: str_lower_def drop_map)
  then show ?thesis
    by (simp add: fullmatch_iff canonical_pattern_def list_all_hex_lower)
qed

lemma fullmatch_lower_fix:
  assumes "ETH_ADDRESS_RE_fullmatch a"
  shows "str_lower a = a"
proof -
  from assms obtain rest where a: "a = CHR ''0'' # CHR ''x'' # rest"
    and r: "list_all in_a_f_0_9 rest"
    by (auto simp: ETH_ADDRESS_RE_fullmatch_def split: list.splits)
  from r have "map str_lower_char rest = rest"
    by (induction rest) (simp_all add: in_a_f_0_9_lower)
  then show ?thesis
    by (simp add: a str_lower_def str_lower_char_def)
qed

lemma dropWhile_no_head: "xs \<noteq> [] \<Longrightarrow> \<not> P (hd xs) \<Longrightarrow> dropWhile P xs = xs"
  by (cases xs) simp_all

lemma fullmatch_strip_fix:
  assumes "ETH_ADDRESS_RE_fullmatch a"
  shows "str_strip a = a"
proof -
  from assms obtain rest where a: "a = CHR ''0'' # CHR ''x'' # rest"
    and r: "list_all in_a_f_0_9 rest" and l: "length rest = 40"
    by (auto simp: ETH_ADDRESS_RE_fullmatch_def split: list.splits)
  have d1: "dropWhile str_isspace a = a"
    by (simp add: a str_isspace_def)
  from l have ne: "rest \<noteq> []" by auto
  then have la: "last a = last rest" by (simp add: a)
  have "in_a_f_0_9 (last rest)"
    using r ne by (simp add: list_all_iff)
  with la have "\<not> str_isspace (last a)"
    by (simp add: in_a_f_0_9_not_space)
  moreover have "hd (rev a) = last a" and "rev a \<noteq> []"
    by (simp_all add: a hd_rev)
  ultimately have "dropWhile str_isspace (rev a) = rev a"
    by (intro dropWhile_no_head) simp_all
  with d1 show ?thesis by (simp add: str_strip_def)
qed

lemma normalize_address_Inr_iff:
  "normalize_address x = Inr y \<longleftrightarrow>
     y = str_lower (str_strip x) \<and> ETH_ADDRESS_RE_fullmatch y"
  by (auto simp: normalize_address_def Let_def)

lemma normalize_address_fix:
  "ETH_ADDRESS_RE_fullmatch a \<Longrightarrow> normalize_address a = Inr a"
  by (simp add: normalize_address_def fullmatch_strip_fix fullmatch_lower_fix)

lemma normalize_address_idem:
  "normalize_address x = Inr y \<Longrightarrow> normalize_address y = Inr y"
proof -
  assume "normalize_address x = Inr y"
  then have "ETH_ADDRESS_RE_fullmatch y"
    using normalize_address_Inr_iff by blast
  then show ?thesis by (rule normalize_address_fix)
qed

lemma normalize_address_fails:
  "\<not> canonical_pattern (str_lower (str_strip x)) \<Longrightarrow>
     normalize_address x = Inl (ValueError ''Invalid Ethereum address format'')"
  by (simp add: normalize_address_def fullmatch_canonical_lower)

lemma normalize_address_succeeds:
  "canonical_pattern (str_lower (str_strip x)) \<Longrightarrow>
     normalize_address x = Inr (str_lower (str_strip x))"
  by (simp add: normalize_address_def fullmatch_canonical_lower)

text \<open>
  Claim C6. Normalisation is idempotent: whenever it succeeds on \<open>x\<close> with result \<open>y\<close>,
  it succeeds on \<open>y\<close> with the same result. It fails with the invalid-address-format
  error on every string whose trimmed, lowercased form is not \<^verbatim>\<open>0x\<close> followed by forty
  hexadecimal digits, and succeeds with that form on every other string.
\<close>

theorem normalize_address_idempotent_and_strict:
  "(normalize_address x = Inr y \<longrightarrow> normalize_address y = Inr y) \<and>
   (\<not> canonical_pattern (str_lower (str_strip x)) \<longrightarrow>
      normalize_address x = Inl (ValueError ''Invalid Ethereum address format'')) \<and>
   (canonical_pattern (str_lower (str_strip x)) \<longrightarrow>
      normalize_address x = Inr (str_lower (str_strip x)))"
  using normalize_address_idem normalize_address_fails normalize_address_succeeds
  by blast

theorem normalize_address_idempotent_and_strict_witness:
  "normalize_address ''  0xDADB0d80178819F2319190D340ce9A924f783711 '' =
     Inr ''0xdadb0d80178819f2319190d340ce9a924f783711'' \<and>
   normalize_address ''0xdadb0d80178819f2319190d340ce9a924f783711'' =
     Inr ''0xdadb0d80178819f2319190d340ce9a924f783711'' \<and>
   \<not> canonical_pattern (str_lower (str_strip ''0x12'')) \<and>
   normalize_address ''0x12'' = Inl (ValueError ''Invalid Ethereum address format'')"
proof -
  have a: "normalize_address ''  0xDADB0d80178819F2319190D340ce9A924f783711 '' =
     Inr ''0xdadb0d80178819f2319190d340ce9a924f783711''"
    by code_simp
  have b: "\<not> canonical_pattern (str_lower (str_strip ''0x12''))"
    by code_simp
  from a b
    normalize_address_idempotent_and_strict
      [of "''  0xDADB0d80178819F2319190D340ce9A924f783711 ''"
          "''0xdadb0d80178819f2319190d340ce9a924f783711''"]
    normalize_address_idempotent_and_strict [of "''0x12''" "[]"]
  show ?thesis by blast
qed


section \<open>Rounding and the range of the indicators\<close>

lemma round_half_even_of_int [simp]: "round_half_even (of_int n) = n"
  by (simp add: round_half_even_def)

lemma round_half_even_near:
  assumes "of_int n - 1 / 2 < y" "y < of_int n + 1 / 2"
  shows "round_half_even y = n"
proof -
  have "\<lfloor>y\<rfloor> = n \<or> \<lfloor>y\<rfloor> = n - 1" using assms by linarith
  then show ?thesis
  proof
    assume f: "\<lfloor>y\<rfloor> = n"
    then have "y - of_int n < 1 / 2" using assms by simp
    with f show ?thesis by (simp add: round_half_even_def)
  next
    assume f: "\<lfloor>y\<rfloor> = n - 1"
    then have "1 / 2 < y - of_int (n - 1)" using assms by simp
    with f show ?thesis by (simp add: round_half_even_def Let_def)
  qed
qed

lemma round_half_even_mono: "x \<le> y \<Longrightarrow> round_half_even x \<le> round_half_even y"
proof -
  assume xy: "x \<le> y"
  have fl: "\<lfloor>x\<rfloor> \<le> \<lfloor>y\<rfloor>" using xy by (rule floor_mono)
  have lo: "\<lfloor>x\<rfloor> \<le> round_half_even x" "round_half_even x \<le> \<lfloor>x\<rfloor> + 1"
    by (simp_all add: round_half_even_def Let_def)
  have lo': "\<lfloor>y\<rfloor> \<le> round_half_even y" 
    by (simp_all add: round_half_even_def Let_def)
  show ?thesis
  proof (cases "\<lfloor>x\<rfloor> = \<lfloor>y\<rfloor>")
    case True
    then have "x - of_int \<lfloor>x\<rfloor> \<le> y - of_int \<lfloor>y\<rfloor>" using xy by simp
    with True show ?thesis
      by (auto simp: round_half_even_def Let_def)
  next
    case False
    with fl have "\<lfloor>x\<rfloor> + 1 \<le> \<lfloor>y\<rfloor>" by simp
    with lo lo' show ?thesis by linarith
  qed
qed

lemma py_round2_mono: "x \<le> y \<Longrightarrow> py_round2 x \<le> py_round2 y"
  by (simp add: py_round2_def round_half_even_mono divide_right_mono)

lemma py_round2_0 [simp]: "py_round2 0 = 0"
  by (simp add: py_round2_def round_half_even_def)

lemma py_round2_100 [simp]: "py_round2 100 = 100"
proof -
  have "round_half_even (of_int 10000) = 10000" by (rule round_half_even_of_int)
  then show ?thesis by (simp add: py_round2_def)
qed

lemma py_round2_bounds: "0 \<le> x \<Longrightarrow> x \<le> 100 \<Longrightarrow> 0 \<le> py_round2 x \<and> py_round2 x \<le> 100"
  using py_round2_mono [of 0 x] py_round2_mono [of x 100] by simp



lemma rounded_scoreI: "0 \<le> c \<Longrightarrow> c \<le> 100 \<Longrightarrow> rounded_score (py_round2 c)"
  by (auto simp: rounded_score_def)

lemma rounded_score_0: "rounded_score 0"
  using rounded_scoreI [of 0] by simp

lemma rounded_score_100: "rounded_score 100"
  using rounded_scoreI [of 100] by simp

lemma rounded_score_bounds: "rounded_score v \<Longrightarrow> 0 \<le> v \<and> v \<le> 100"
  by (auto simp: rounded_score_def py_round2_bounds)

lemma np_clip_bounds: "lo \<le> hi \<Longrightarrow> lo \<le> np_clip x lo hi \<and> np_clip x lo hi \<le> hi"
  by (simp add: np_clip_def)

lemma activity_rounded: "rounded_score (calculate_activity_score df_tx)"
proof (cases "tx_rows df_tx = []")
  case True
  then show ?thesis by (simp add: calculate_activity_score_def rounded_score_0)
next
  case False
  define tn where
    "tn = np_clip (log 10 (real (length (tx_rows df_tx)) + 1) / log 10 (5000 + 1)) 0 1"
  define vn where
    "vn = np_clip (log 10 (sum_list (map value_eth (tx_rows df_tx)) + 1) / log 10 (10000 + 1)) 0 1"
  have t: "0 \<le> tn \<and> tn \<le> 1" unfolding tn_def by (rule np_clip_bounds) simp
  have v: "0 \<le> vn \<and> vn \<le> 1" unfolding vn_def by (rule np_clip_bounds) simp
  have eq: "calculate_activity_score df_tx = py_round2 ((0.5 * tn + 0.5 * vn) * 100)"
    using False by (simp add: calculate_activity_score_def Let_def tn_def vn_def)
  show ?thesis unfolding eq
    using t v by (intro rounded_scoreI) auto
qed

lemma longevity_rounded: "rounded_score (calculate_longevity_score now df_tx)"
proof (cases "tx_rows df_tx = []")
  case True
  then show ?thesis by (simp add: calculate_longevity_score_def rounded_score_0)
next
  case False
  define days where
    "days = max ((now - Min (set (map timeStamp (tx_rows df_tx)))) div 86400) 0"
  have d: "0 \<le> days" by (simp add: days_def)
  have l: "0 < ln (731 :: real)" by simp
  have "0 \<le> ln (of_int days + 1 :: real)" using d by simp
  then have s: "0 \<le> ln (of_int days + 1) / ln (731 :: real) * 100" using l by simp
  have eq: "calculate_longevity_score now df_tx =
      py_round2 (min (ln (of_int days + 1) / ln 731 * 100) 100)"
    using False l by (simp add: calculate_longevity_score_def Let_def days_def)
  show ?thesis unfolding eq
    using s by (intro rounded_scoreI) auto
qed

lemma diversity_rounded: "rounded_score (calculate_diversity_score df_tx)"
proof (cases "tx_rows df_tx = []")
  case True
  then show ?thesis by (simp add: calculate_diversity_score_def rounded_score_0)
next
  case False
  show ?thesis
    using False
    by (auto simp: calculate_diversity_score_def Let_def rounded_score_0 intro!: rounded_scoreI)
qed

lemma general_risk_rounded: "rounded_score (calculate_general_risk_score df_tx n)"
proof (cases "tx_rows df_tx = []")
  case True
  then show ?thesis by (simp add: calculate_general_risk_score_def rounded_score_100)
next
  case False
  show ?thesis
    using False np_clip_bounds [of 0 100]
    by (auto simp: calculate_general_risk_score_def Let_def intro!: rounded_scoreI)
qed

lemma asset_risk_rounded: "rounded_score (calculate_asset_risk_score df_tx df_erc20)"
  unfolding calculate_asset_risk_score_def Let_def
  using np_clip_bounds [of 0 100] by (intro rounded_scoreI) auto

text \<open>
  Claim C4. Each of the five indicator functions returns the two-decimal rounding of a
  value that already lies between 0 and 100, for every transaction frame, token frame,
  clock and incident count, and so each result lies between 0 and 100 itself.
\<close>

theorem indicators_clipped_then_rounded:
  "rounded_score (calculate_activity_score df_tx) \<and>
   rounded_score (calculate_longevity_score now df_tx) \<and>
   rounded_score (calculate_diversity_score df_tx) \<and>
   rounded_score (calculate_general_risk_score df_tx n) \<and>
   rounded_score (calculate_asset_risk_score df_tx df_erc20) \<and>
   0 \<le> calculate_activity_score df_tx \<and> calculate_activity_score df_tx \<le> 100 \<and>
   0 \<le> calculate_longevity_score now df_tx \<and> calculate_longevity_score now df_tx \<le> 100 \<and>
   0 \<le> calculate_diversity_score df_tx \<and> calculate_diversity_score df_tx \<le> 100 \<and>
   0 \<le> calculate_general_risk_score df_tx n \<and> calculate_general_risk_score df_tx n \<le> 100 \<and>
   0 \<le> calculate_asset_risk_score df_tx df_erc20 \<and>
   calculate_asset_risk_score df_tx df_erc20 \<le> 100"
  using activity_rounded [of df_tx] longevity_rounded [of now df_tx]
    diversity_rounded [of df_tx] general_risk_rounded [of df_tx n]
    asset_risk_rounded [of df_tx df_erc20]
  by (simp add: rounded_score_bounds)

theorem indicators_clipped_then_rounded_witness:
  "rounded_score (calculate_activity_score
     \<lparr>tx_has_to = True, tx_rows = [\<lparr>timeStamp = 0, tx_to = ''0xab'', tx_value = 5\<rparr>]\<rparr>) \<and>
   calculate_general_risk_score
     \<lparr>tx_has_to = True, tx_rows = [\<lparr>timeStamp = 0, tx_to = ''0xab'', tx_value = 5\<rparr>]\<rparr> 1000 \<le> 100 \<and>
   0 \<le> calculate_longevity_score 86400000
     \<lparr>tx_has_to = True, tx_rows = [\<lparr>timeStamp = 0, tx_to = ''0xab'', tx_value = 5\<rparr>]\<rparr>"
  using indicators_clipped_then_rounded
    [of "\<lparr>tx_has_to = True, tx_rows = [\<lparr>timeStamp = 0, tx_to = ''0xab'', tx_value = 5\<rparr>]\<rparr>"
        86400000 1000 empty_erc20_frame]
  by simp

lemma asset_risk_no_incidents:
  assumes "tx_rows df_tx = []"
    and "\<forall>r \<in> set (erc20_rows df_erc20). contractAddress r \<notin> PRIVACY_TOKEN_CONTRACTS"
  shows "calculate_asset_risk_score df_tx df_erc20 = 100"
proof -
  have "filter (\<lambda>r. contractAddress r \<in> PRIVACY_TOKEN_CONTRACTS) (erc20_rows df_erc20) = []"
    using assms(2) by (simp add: filter_empty_conv)
  then show ?thesis
    using assms(1) by (simp add: calculate_asset_risk_score_def np_clip_def)
qed

text \<open>
  Claim C3. On a transaction frame without rows the indicators take their defaults:
  activity, longevity and diversity are 0, the general risk score is 100 whatever the
  number of tagged counterparties, and the asset risk score is 100 when no token transfer
  involves a privacy token contract.
\<close>

theorem empty_input_defaults:
  assumes "tx_rows df_tx = []"
    and "\<forall>r \<in> set (erc20_rows df_erc20). contractAddress r \<notin> PRIVACY_TOKEN_CONTRACTS"
  shows "calculate_activity_score df_tx = 0 \<and>
         calculate_longevity_score now df_tx = 0 \<and>
         calculate_diversity_score df_tx = 0 \<and>
         calculate_general_risk_score df_tx tagged_scam_count = 100 \<and>
         calculate_asset_risk_score df_tx df_erc20 = 100"
  using assms asset_risk_no_incidents [of df_tx df_erc20]
  by (simp add: calculate_activity_score_def calculate_longevity_score_def
      calculate_diversity_score_def calculate_general_risk_score_def)

theorem empty_input_defaults_witness:
  "tx_rows empty_tx_frame = [] \<and>
   calculate_activity_score empty_tx_frame = 0 \<and>
   calculate_longevity_score 1700000000 empty_tx_frame = 0 \<and>
   calculate_diversity_score empty_tx_frame = 0 \<and>
   calculate_general_risk_score empty_tx_frame 7 = 100 \<and>
   calculate_asset_risk_score empty_tx_frame
     \<lparr>erc20_has_contractAddress = True,
      erc20_rows = [\<lparr>contractAddress = ''0xcc'', tokenSymbol = ''DAI''\<rparr>]\<rparr> = 100"
proof -
  have a: "tx_rows empty_tx_frame = []" by (simp add: empty_tx_frame_def)
  have b: "\<forall>r \<in> set (erc20_rows \<lparr>erc20_has_contractAddress = True,
      erc20_rows = [\<lparr>contractAddress = ''0xcc'', tokenSymbol = ''DAI''\<rparr>]\<rparr>).
        contractAddress r \<notin> PRIVACY_TOKEN_CONTRACTS"
    by (simp add: PRIVACY_TOKEN_CONTRACTS_def)
  from a empty_input_defaults [OF a b, of 1700000000 7] show ?thesis by simp
qed

section \<open>The scam classifier\<close>

lemma str_in_sublist: "str_in m s \<longleftrightarrow> sublist m s"
  by (induction s) (simp_all add: sublist_Cons_right)

lemma sublist_across_separator:
  assumes "c \<notin> set m"
  shows "sublist m (a @ c # b) \<longleftrightarrow> sublist m a \<or> sublist m b"
proof
  assume "sublist m (a @ c # b)"
  then consider "sublist m a" | "sublist m (c # b)"
    | xs1 xs2 where "m = xs1 @ xs2" "suffix xs1 a" "prefix xs2 (c # b)"
    by (auto simp: sublist_append)
  then show "sublist m a \<or> sublist m b"
  proof cases
    case 1
    then show ?thesis by simp
  next
    case 2
    then have "prefix m (c # b) \<or> sublist m b" by (simp add: sublist_Cons_right)
    then show ?thesis
    proof
      assume "prefix m (c # b)"
      with assms have "m = []" by (cases m) auto
      then show ?thesis by simp
    qed simp
  next
    case 3
    from 3(3) assms 3(1) have "xs2 = []" by (cases xs2) auto
    with 3(1,2) have "suffix m a" by simp
    then show ?thesis by (simp add: suffix_imp_sublist)
  qed
next
  assume "sublist m a \<or> sublist m b"
  then show "sublist m (a @ c # b)"
    by (auto simp: sublist_append sublist_Cons_right)
qed

lemma sublist_str_join:
  assumes "CHR '' '' \<notin> set m" "m \<noteq> []"
  shows "sublist m (str_join '' '' xs) \<longleftrightarrow> (\<exists>x \<in> set xs. sublist m x)"
proof (induction xs rule: induct_list012)
  case 1
  from assms(2) show ?case by simp
next
  case (2 x)
  show ?case by simp
next
  case (3 x y ys)
  have "sublist m (str_join '' '' (x # y # ys)) \<longleftrightarrow>
        sublist m x \<or> sublist m (str_join '' '' (y # ys))"
    using sublist_across_separator [OF assms(1), of x "str_join '' '' (y # ys)"] by simp
  with 3 show ?case by simp
qed

lemma scam_markers_plain: "m \<in> set scam_markers \<Longrightarrow> CHR '' '' \<notin> set m \<and> m \<noteq> []"
  by (auto simp: scam_markers_def)

lemma marker_in_joined:
  "list_ex (\<lambda>m. str_in m (str_join '' '' (map str_lower xs))) scam_markers \<longleftrightarrow>
     (\<exists>s \<in> set xs. contains_marker s)"
proof -
  have "list_ex (\<lambda>m. str_in m (str_join '' '' (map str_lower xs))) scam_markers \<longleftrightarrow>
        (\<exists>m \<in> set scam_markers. sublist m (str_join '' '' (map str_lower xs)))"
    by (simp add: list_ex_iff str_in_sublist)
  also have "\<dots> \<longleftrightarrow> (\<exists>m \<in> set scam_markers. \<exists>x \<in> set (map str_lower xs). sublist m x)"
    using scam_markers_plain sublist_str_join by (metis (no_types, lifting))
  also have "\<dots> \<longleftrightarrow> (\<exists>s \<in> set xs. contains_marker s)"
    by (auto simp: contains_marker_def)
  finally show ?thesis .
qed

lemma is_scam_label_strings:
  "is_scam_label tag \<longleftrightarrow> (\<exists>s \<in> set (label_strings tag). contains_marker s)"
proof (cases tag)
  case None
  then show ?thesis by (simp add: is_scam_label_def label_strings_def)
next
  case (Some t)
  show ?thesis
  proof (cases "t = []")
    case True
    with Some show ?thesis
      by (simp add: is_scam_label_def label_strings_def tag_get_def)
  next
    case False
    with Some show ?thesis
      by (auto simp: is_scam_label_def label_strings_def Let_def marker_in_joined)
  qed
qed

text \<open>
  Claim C7. The scam classifier returns true exactly when some label or label slug of the
  label record, lowercased, contains one of the nine markers as a substring; in
  particular it returns false for an absent and for an empty label record.
\<close>

theorem is_scam_label_iff:
  "(is_scam_label tag \<longleftrightarrow> (\<exists>s \<in> set (label_strings tag). contains_marker s)) \<and>
   \<not> is_scam_label None \<and> \<not> is_scam_label (Some [])"
  using is_scam_label_strings [of tag] is_scam_label_strings [of None]
    is_scam_label_strings [of "Some []"]
  by (simp add: label_strings_def tag_get_def)

theorem is_scam_label_iff_witness:
  "contains_marker ''ETH Hackathon'' \<and>
   is_scam_label (Some [(''nametag'', None), (''labels'', Some [''Exchange'', ''ETH Hackathon''])]) \<and>
   \<not> is_scam_label (Some [(''labels'', Some [''Exchange'']), (''labels_slug'', Some [''dex''])]) \<and>
   \<not> is_scam_label None \<and> \<not> is_scam_label (Some [])"
proof -
  have c: "contains_marker ''ETH Hackathon''"
    by code_simp
  have d: "\<not> contains_marker ''Exchange''" "\<not> contains_marker ''dex''"
    by code_simp+
  have l: "label_strings (Some [(''nametag'', None), (''labels'', Some [''Exchange'', ''ETH Hackathon''])]) =
      [''Exchange'', ''ETH Hackathon'']"
    by (simp add: label_strings_def tag_get_def)
  have m: "label_strings (Some [(''labels'', Some [''Exchange'']), (''labels_slug'', Some [''dex''])]) =
      [''Exchange'', ''dex'']"
    by (simp add: label_strings_def tag_get_def)
  have n: "label_strings None = []" "label_strings (Some []) = []"
    by (simp_all add: label_strings_def tag_get_def)
  from c d l m n
    is_scam_label_iff [of "Some [(''nametag'', None), (''labels'', Some [''Exchange'', ''ETH Hackathon''])]"]
    is_scam_label_iff [of "Some [(''labels'', Some [''Exchange'']), (''labels_slug'', Some [''dex''])]"]
    is_scam_label_iff [of None] is_scam_label_iff [of "Some []"]
  show ?thesis by simp
qed

section \<open>The counterparty scan\<close>







lemma set_first_seen [simp]: "set (first_seen xs) = set xs"
  by (simp add: first_seen_def)

lemma distinct_first_seen [simp]: "distinct (first_seen xs)"
  by (simp add: first_seen_def)

lemma ranked_eq:
  "ranked xs = map fst (sort_key (\<lambda>p. - int (snd p)) (map (\<lambda>v. (v, count_list xs v)) (first_seen xs)))"
  by (simp add: ranked_def value_counts_def)








section \<open>Bounds on two logarithm ratios\<close>

text \<open>
  A power of a natural number is bounded from both sides by a mantissa times a power of
  ten; products of such bounds are truncated to fourteen digits, so that comparing
  two large powers needs only small multiplications.
\<close>

lemma pow_lower_mult:
  fixes a :: nat
  assumes "M1 * 10 ^ e1 \<le> a ^ k1" "M2 * 10 ^ e2 \<le> a ^ k2" "M * 10 ^ d \<le> M1 * M2"
    "e = d + e1 + e2" "k = k1 + k2"
  shows "M * 10 ^ e \<le> a ^ k"
proof -
  have "M * 10 ^ e = (M * 10 ^ d) * (10 ^ e1 * 10 ^ e2)"
    by (simp add: assms(4) power_add)
  also have "\<dots> \<le> (M1 * M2) * (10 ^ e1 * 10 ^ e2)"
    using assms(3) by (rule mult_le_mono1)
  also have "\<dots> = (M1 * 10 ^ e1) * (M2 * 10 ^ e2)"
    by simp
  also have "\<dots> \<le> a ^ k1 * a ^ k2"
    using assms(1,2) by (rule mult_le_mono)
  finally show ?thesis by (simp add: assms(5) power_add)
qed

lemma pow_upper_mult:
  fixes a :: nat
  assumes "a ^ k1 \<le> M1 * 10 ^ e1" "a ^ k2 \<le> M2 * 10 ^ e2" "M1 * M2 \<le> M * 10 ^ d"
    "e = d + e1 + e2" "k = k1 + k2"
  shows "a ^ k \<le> M * 10 ^ e"
proof -
  have "a ^ k = a ^ k1 * a ^ k2"
    by (simp add: assms(5) power_add)
  also have "\<dots> \<le> (M1 * 10 ^ e1) * (M2 * 10 ^ e2)"
    using assms(1,2) by (rule mult_le_mono)
  also have "\<dots> = (M1 * M2) * (10 ^ e1 * 10 ^ e2)"
    by simp
  also have "\<dots> \<le> (M * 10 ^ d) * (10 ^ e1 * 10 ^ e2)"
    using assms(3) by (rule mult_le_mono1)
  finally show ?thesis by (simp add: assms(4) power_add)
qed



lemma cert_366_lower: "(731::nat) ^ 145 \<le> 366 ^ 162"
proof -
  have u1: "(731::nat) ^ 1 \<le> 731 * 10 ^ 0"
    by simp
  have up2: "(731::nat) * 731 \<le> 534361 * 10 ^ 0"
    by simp
  have u2: "(731::nat) ^ 2 \<le> 534361 * 10 ^ 0"
    by (rule pow_upper_mult [OF u1 u1 up2]) simp_all
  have up4: "(534361::nat) * 534361 \<le> 285541678321 * 10 ^ 0"
    by simp
  have u4: "(731::nat) ^ 4 \<le> 285541678321 * 10 ^ 0"
    by (rule pow_upper_mult [OF u2 u2 up4]) simp_all
  have up8: "(285541678321::nat) * 285541678321 \<le> 81534050058374 * 10 ^ 9"
    by simp
  have u8: "(731::nat) ^ 8 \<le> 81534050058374 * 10 ^ 9"
    by (rule pow_upper_mult [OF u4 u4 up8]) simp_all
  have up16: "(81534050058374::nat) * 81534050058374 \<le> 66478013189215 * 10 ^ 14"
    by simp
  have u16: "(731::nat) ^ 16 \<le> 66478013189215 * 10 ^ 32"
    by (rule pow_upper_mult [OF u8 u8 up16]) simp_all
  have up32: "(66478013189215::nat) * 66478013189215 \<le> 44193262375855 * 10 ^ 14"
    by simp
  have u32: "(731::nat) ^ 32 \<le> 44193262375855 * 10 ^ 78"
    by (rule pow_upper_mult [OF u16 u16 up32]) simp_all
  have up64: "(44193262375855::nat) * 44193262375855 \<le> 19530444394212 * 10 ^ 14"
    by simp
  have u64: "(731::nat) ^ 64 \<le> 19530444394212 * 10 ^ 170"
    by (rule pow_upper_mult [OF u32 u32 up64]) simp_all
  have up128: "(19530444394212::nat) * 19530444394212 \<le> 38143825823541 * 10 ^ 13"
    by simp
  have u128: "(731::nat) ^ 128 \<le> 38143825823541 * 10 ^ 353"
    by (rule pow_upper_mult [OF u64 u64 up128]) simp_all
  have up144: "(38143825823541::nat) * 66478013189215 \<le> 25357257561845 * 10 ^ 14"
    by simp
  have u144: "(731::nat) ^ 144 \<le> 25357257561845 * 10 ^ 399"
    by (rule pow_upper_mult [OF u128 u16 up144]) simp_all
  have up145: "(25357257561845::nat) * 731 \<le> 18536155277709 * 10 ^ 3"
    by simp
  have u145: "(731::nat) ^ 145 \<le> 18536155277709 * 10 ^ 402"
    by (rule pow_upper_mult [OF u144 u1 up145]) simp_all
  have l1: "366 * 10 ^ 0 \<le> (366::nat) ^ 1"
    by simp
  have lp2: "133956 * 10 ^ 0 \<le> (366::nat) * 366"
    by simp
  have l2: "133956 * 10 ^ 0 \<le> (366::nat) ^ 2"
    by (rule pow_lower_mult [OF l1 l1 lp2]) simp_all
  have lp4: "17944209936 * 10 ^ 0 \<le> (133956::nat) * 133956"
    by simp
  have l4: "17944209936 * 10 ^ 0 \<le> (366::nat) ^ 4"
    by (rule pow_lower_mult [OF l2 l2 lp4]) simp_all
  have lp8: "32199467022724 * 10 ^ 7 \<le> (17944209936::nat) * 17944209936"
    by simp
  have l8: "32199467022724 * 10 ^ 7 \<le> (366::nat) ^ 8"
    by (rule pow_lower_mult [OF l4 l4 lp8]) simp_all
  have lp16: "10368056765474 * 10 ^ 14 \<le> (32199467022724::nat) * 32199467022724"
    by simp
  have l16: "10368056765474 * 10 ^ 28 \<le> (366::nat) ^ 16"
    by (rule pow_lower_mult [OF l8 l8 lp16]) simp_all
  have lp32: "10749660109209 * 10 ^ 13 \<le> (10368056765474::nat) * 10368056765474"
    by simp
  have l32: "10749660109209 * 10 ^ 69 \<le> (366::nat) ^ 32"
    by (rule pow_lower_mult [OF l16 l16 lp32]) simp_all
  have lp64: "11555519246351 * 10 ^ 13 \<le> (10749660109209::nat) * 10749660109209"
    by simp
  have l64: "11555519246351 * 10 ^ 151 \<le> (366::nat) ^ 64"
    by (rule pow_lower_mult [OF l32 l32 lp64]) simp_all
  have lp128: "13353002505278 * 10 ^ 13 \<le> (11555519246351::nat) * 11555519246351"
    by simp
  have l128: "13353002505278 * 10 ^ 315 \<le> (366::nat) ^ 128"
    by (rule pow_lower_mult [OF l64 l64 lp128]) simp_all
  have lp160: "14354023836915 * 10 ^ 13 \<le> (13353002505278::nat) * 10749660109209"
    by simp
  have l160: "14354023836915 * 10 ^ 397 \<le> (366::nat) ^ 160"
    by (rule pow_lower_mult [OF l128 l32 lp160]) simp_all
  have lp162: "19228076170977 * 10 ^ 5 \<le> (14354023836915::nat) * 133956"
    by simp
  have l162: "19228076170977 * 10 ^ 402 \<le> (366::nat) ^ 162"
    by (rule pow_lower_mult [OF l160 l2 lp162]) simp_all
  have m: "(18536155277709::nat) * 10 ^ 402 \<le> 19228076170977 * 10 ^ 402"
    by (rule mult_le_mono1) simp
  show ?thesis
    by (rule order_trans [OF u145 order_trans [OF m l162]])
qed

lemma cert_366_upper: "(366::nat) ^ 143 \<le> 731 ^ 128"
proof -
  have u1: "(366::nat) ^ 1 \<le> 366 * 10 ^ 0"
    by simp
  have up2: "(366::nat) * 366 \<le> 133956 * 10 ^ 0"
    by simp
  have u2: "(366::nat) ^ 2 \<le> 133956 * 10 ^ 0"
    by (rule pow_upper_mult [OF u1 u1 up2]) simp_all
  have up4: "(133956::nat) * 133956 \<le> 17944209936 * 10 ^ 0"
    by simp
  have u4: "(366::nat) ^ 4 \<le> 17944209936 * 10 ^ 0"
    by (rule pow_upper_mult [OF u2 u2 up4]) simp_all
  have up8: "(17944209936::nat) * 17944209936 \<le> 32199467022725 * 10 ^ 7"
    by simp
  have u8: "(366::nat) ^ 8 \<le> 32199467022725 * 10 ^ 7"
    by (rule pow_upper_mult [OF u4 u4 up8]) simp_all
  have up16: "(32199467022725::nat) * 32199467022725 \<le> 10368056765476 * 10 ^ 14"
    by simp
  have u16: "(366::nat) ^ 16 \<le> 10368056765476 * 10 ^ 28"
    by (rule pow_upper_mult [OF u8 u8 up16]) simp_all
  have up32: "(10368056765476::nat) * 10368056765476 \<le> 10749660109214 * 10 ^ 13"
    by simp
  have u32: "(366::nat) ^ 32 \<le> 10749660109214 * 10 ^ 69"
    by (rule pow_upper_mult [OF u16 u16 up32]) simp_all
  have up64: "(10749660109214::nat) * 10749660109214 \<le> 11555519246363 * 10 ^ 13"
    by simp
  have u64: "(366::nat) ^ 64 \<le> 11555519246363 * 10 ^ 151"
    by (rule pow_upper_mult [OF u32 u32 up64]) simp_all
  have up128: "(11555519246363::nat) * 11555519246363 \<le> 13353002505307 * 10 ^ 13"
    by simp
  have u128: "(366::nat) ^ 128 \<le> 13353002505307 * 10 ^ 315"
    by (rule pow_upper_mult [OF u64 u64 up128]) simp_all
  have up136: "(13353002505307::nat) * 32199467022725 \<le> 42995956382400 * 10 ^ 13"
    by simp
  have u136: "(366::nat) ^ 136 \<le> 42995956382400 * 10 ^ 335"
    by (rule pow_upper_mult [OF u128 u8 up136]) simp_all
  have up140: "(42995956382400::nat) * 17944209936 \<le> 77152846772489 * 10 ^ 10"
    by simp
  have u140: "(366::nat) ^ 140 \<le> 77152846772489 * 10 ^ 345"
    by (rule pow_upper_mult [OF u136 u4 up140]) simp_all
  have up142: "(77152846772489::nat) * 133956 \<le> 10335086742256 * 10 ^ 6"
    by simp
  have u142: "(366::nat) ^ 142 \<le> 10335086742256 * 10 ^ 351"
    by (rule pow_upper_mult [OF u140 u2 up142]) simp_all
  have up143: "(10335086742256::nat) * 366 \<le> 37826417476657 * 10 ^ 2"
    by simp
  have u143: "(366::nat) ^ 143 \<le> 37826417476657 * 10 ^ 353"
    by (rule pow_upper_mult [OF u142 u1 up143]) simp_all
  have l1: "731 * 10 ^ 0 \<le> (731::nat) ^ 1"
    by simp
  have lp2: "534361 * 10 ^ 0 \<le> (731::nat) * 731"
    by simp
  have l2: "534361 * 10 ^ 0 \<le> (731::nat) ^ 2"
    by (rule pow_lower_mult [OF l1 l1 lp2]) simp_all
  have lp4: "285541678321 * 10 ^ 0 \<le> (534361::nat) * 534361"
    by simp
  have l4: "285541678321 * 10 ^ 0 \<le> (731::nat) ^ 4"
    by (rule pow_lower_mult [OF l2 l2 lp4]) simp_all
  have lp8: "81534050058373 * 10 ^ 9 \<le> (285541678321::nat) * 285541678321"
    by simp
  have l8: "81534050058373 * 10 ^ 9 \<le> (731::nat) ^ 8"
    by (rule pow_lower_mult [OF l4 l4 lp8]) simp_all
  have lp16: "66478013189212 * 10 ^ 14 \<le> (81534050058373::nat) * 81534050058373"
    by simp
  have l16: "66478013189212 * 10 ^ 32 \<le> (731::nat) ^ 16"
    by (rule pow_lower_mult [OF l8 l8 lp16]) simp_all
  have lp32: "44193262375850 * 10 ^ 14 \<le> (66478013189212::nat) * 66478013189212"
    by simp
  have l32: "44193262375850 * 10 ^ 78 \<le> (731::nat) ^ 32"
    by (rule pow_lower_mult [OF l16 l16 lp32]) simp_all
  have lp64: "19530444394207 * 10 ^ 14 \<le> (44193262375850::nat) * 44193262375850"
    by simp
  have l64: "19530444394207 * 10 ^ 170 \<le> (731::nat) ^ 64"
    by (rule pow_lower_mult [OF l32 l32 lp64]) simp_all
  have lp128: "38143825823521 * 10 ^ 13 \<le> (19530444394207::nat) * 19530444394207"
    by simp
  have l128: "38143825823521 * 10 ^ 353 \<le> (731::nat) ^ 128"
    by (rule pow_lower_mult [OF l64 l64 lp128]) simp_all
  have m: "(37826417476657::nat) * 10 ^ 353 \<le> 38143825823521 * 10 ^ 353"
    by (rule mult_le_mono1) simp
  show ?thesis
    by (rule order_trans [OF u143 order_trans [OF m l128]])
qed

lemma log_ratio_ge:
  fixes x y p q :: nat
  assumes "1 < y" "0 < x" "0 < q" "y ^ p \<le> x ^ q"
  shows "real p / real q \<le> ln (real x) / ln (real y)"
proof -
  have ly: "0 < ln (real y)" using assms(1) by simp
  have "real (y ^ p) \<le> real (x ^ q)" using assms(4) by (simp only: of_nat_le_iff)
  then have "real y ^ p \<le> real x ^ q" by simp
  moreover have "0 < real y ^ p" using assms(1) by simp
  ultimately have "ln (real y ^ p) \<le> ln (real x ^ q)" by (simp only: ln_mono)
  then have "real p * ln (real y) \<le> real q * ln (real x)"
    using assms(1,2) by (simp add: ln_realpow)
  then show ?thesis using ly assms(3) by (simp add: field_simps)
qed

lemma log_ratio_le:
  fixes x y p q :: nat
  assumes "1 < y" "0 < x" "0 < q" "x ^ q \<le> y ^ p"
  shows "ln (real x) / ln (real y) \<le> real p / real q"
proof -
  have ly: "0 < ln (real y)" using assms(1) by simp
  have "real (x ^ q) \<le> real (y ^ p)" using assms(4) by (simp only: of_nat_le_iff)
  then have "real x ^ q \<le> real y ^ p" by simp
  moreover have "0 < real x ^ q" using assms(2) by simp
  ultimately have "ln (real x ^ q) \<le> ln (real y ^ p)" by (simp only: ln_mono)
  then have "real q * ln (real x) \<le> real p * ln (real y)"
    using assms(1,2) by (simp add: ln_realpow)
  then show ?thesis using ly assms(3) by (simp add: field_simps)
qed


lemma ln_366_731:
  "145 / 162 \<le> ln (366 :: real) / ln 731" "ln (366 :: real) / ln 731 \<le> 128 / 143"
  using log_ratio_ge [of 731 366 162 145, OF _ _ _ cert_366_lower]
    log_ratio_le [of 731 366 143 128, OF _ _ _ cert_366_upper]
  by simp_all

lemma py_round2_near:
  assumes "of_int n - 1 / 2 < x * 100" "x * 100 < of_int n + 1 / 2"
  shows "py_round2 x = of_int n / 100"
  using round_half_even_near [OF assms] by (simp add: py_round2_def)

lemma longevity_366: "py_round2 (ln (366 :: real) / ln 731 * 100) = 89.51"
proof -
  let ?x = "ln (366 :: real) / ln 731"
  have "py_round2 (?x * 100) = of_int 8951 / 100"
  proof (rule py_round2_near)
    show "of_int 8951 - 1 / 2 < ?x * 100 * 100" using ln_366_731(1) by simp
    show "?x * 100 * 100 < of_int 8951 + 1 / 2" using ln_366_731(2) by simp
  qed
  then show ?thesis by simp
qed


section \<open>The wallet with 459 transactions\<close>

lemma addr_d_fullmatch: "ETH_ADDRESS_RE_fullmatch addr_d"
  by code_simp

lemma table_name_ok:
  "ETH_ADDRESS_RE_fullmatch a \<Longrightarrow> table_name a ''tx'' = Inr (''tx_'' @ drop 2 a)"
  "ETH_ADDRESS_RE_fullmatch a \<Longrightarrow> table_name a ''erc20'' = Inr (''erc20_'' @ drop 2 a)"
  by (simp_all add: table_name_def normalize_address_fix)


















section \<open>The final score\<close>


lemma final_score_no_data:
  assumes "normalize_address address = Inr a" "fetch_tx_from_db E a = Inr df_tx"
    "tx_rows df_tx = []"
  shows "calculate_final_score E address =
     Inr [(''address'', PyStr a),
          (''status'', PyStr ''Error: Could not load tx data. Check ingestion step.''),
          (''final_score'', PyInt 0), (''indicators'', PyDict [])]"
  using assms by (simp add: calculate_final_score_def)






lemma fetch_tx_no_rows:
  assumes "ETH_ADDRESS_RE_fullmatch a"
    and "case tx_tables E (''tx_'' @ drop 2 a) of Some (Stored df) \<Rightarrow> tx_rows df = [] | _ \<Rightarrow> True"
  shows "fetch_tx_from_db E a = Inr empty_tx_frame"
  using assms
  by (auto simp: fetch_tx_from_db_def table_name_ok split: option.splits stored.splits)

text \<open>
  Claim C5, as amended. When the transaction table of the address is missing, is the
  empty marker table or has no rows, the scoring function returns, without raising and
  whatever the token transfer table holds, the error dictionary: the status message, the
  placeholder final score 0, an empty indicators dictionary and no profile.
\<close>

theorem no_transaction_data_is_terminal:
  assumes "normalize_address address = Inr a"
    and "case tx_tables E (''tx_'' @ drop 2 a) of Some (Stored df) \<Rightarrow> tx_rows df = [] | _ \<Rightarrow> True"
  shows "calculate_final_score E address = Inr (no_data_result a) \<and>
         map_of (no_data_result a) ''status'' =
           Some (PyStr ''Error: Could not load tx data. Check ingestion step.'') \<and>
         map_of (no_data_result a) ''final_score'' = Some (PyInt 0) \<and>
         map_of (no_data_result a) ''indicators'' = Some (PyDict []) \<and>
         map_of (no_data_result a) ''profile'' = None"
proof -
  from assms(1) have fm: "ETH_ADDRESS_RE_fullmatch a"
    using normalize_address_Inr_iff by blast
  have "fetch_tx_from_db E a = Inr empty_tx_frame"
    using fm assms(2) by (rule fetch_tx_no_rows)
  moreover have "tx_rows empty_tx_frame = []" by (simp add: empty_tx_frame_def)
  ultimately have "calculate_final_score E address = Inr (no_data_result a)"
    using assms(1) final_score_no_data [of address a E empty_tx_frame]
    by (simp add: no_data_result_def)
  then show ?thesis by (simp add: no_data_result_def)
qed

theorem no_transaction_data_is_terminal_witness:
  "normalize_address (''  0x00000000000000000000000000000000000000DD'') = Inr addr_d \<and>
   tx_tables nodata_env (''tx_'' @ drop 2 addr_d) = Some EmptyFlag \<and>
   calculate_final_score nodata_env (''  0x00000000000000000000000000000000000000DD'') =
     Inr (no_data_result addr_d)"
proof -
  have n: "normalize_address (''  0x00000000000000000000000000000000000000DD'') = Inr addr_d"
    by code_simp
  have t: "tx_tables nodata_env (''tx_'' @ drop 2 addr_d) = Some EmptyFlag"
    by (simp add: nodata_env_def)
  then have c: "case tx_tables nodata_env (''tx_'' @ drop 2 addr_d) of
      Some (Stored df) \<Rightarrow> tx_rows df = [] | _ \<Rightarrow> True"
    by simp
  from n t no_transaction_data_is_terminal [OF n c] show ?thesis by simp
qed

text \<open>
  The claim as stated says that the error result has no numeric score; the returned
  dictionary has the key \<^verbatim>\<open>final_score\<close> with the integer 0.
\<close>

theorem no_transaction_data_score_counterexample:
  "calculate_final_score nodata_env addr_d =
     Inr [(''address'', PyStr addr_d),
          (''status'', PyStr ''Error: Could not load tx data. Check ingestion step.''),
          (''final_score'', PyInt 0), (''indicators'', PyDict [])] \<and>
   map_of [(''address'', PyStr addr_d),
           (''status'', PyStr ''Error: Could not load tx data. Check ingestion step.''),
           (''final_score'', PyInt 0), (''indicators'', PyDict [])] ''final_score'' = Some (PyInt 0)"
proof -
  have "fetch_tx_from_db nodata_env addr_d = Inr empty_tx_frame"
    using addr_d_fullmatch by (rule fetch_tx_no_rows) (simp add: nodata_env_def)
  moreover have "tx_rows empty_tx_frame = []" by (simp add: empty_tx_frame_def)
  ultimately show ?thesis
    using final_score_no_data [OF normalize_address_fix [OF addr_d_fullmatch], of nodata_env empty_tx_frame]
    by simp
qed




















lemma longevity_single:
  assumes "timeStamp r = now - 365 * 86400"
  shows "calculate_longevity_score now \<lparr>tx_has_to = h, tx_rows = [r]\<rparr> =
           py_round2 (ln 366 / ln 731 * 100)"
proof -
  have l: "ln (366 :: real) \<le> ln 731" by simp
  have p: "0 < ln (731 :: real)" by simp
  from l p have "ln (366 :: real) / ln 731 * 100 \<le> 100" by (simp add: field_simps)
  then have m: "min (ln (366 :: real) / ln 731 * 100) 100 = ln 366 / ln 731 * 100" by simp
  have d: "max ((now - timeStamp r) div 86400) 0 = 365" using assms by simp
  show ?thesis
    using p m by (simp add: calculate_longevity_score_def Let_def d)
qed

text \<open>
  Claim C9, as amended. For a single transaction exactly 365 days before the clock the
  longevity score is the two-decimal rounding of \<open>ln 366 / ln 731 * 100\<close>, which is 89.51.
\<close>

theorem longevity_after_one_year:
  assumes "timeStamp r = now - 365 * 86400"
  shows "calculate_longevity_score now \<lparr>tx_has_to = h, tx_rows = [r]\<rparr> =
           py_round2 (ln 366 / ln 731 * 100) \<and>
         py_round2 (ln 366 / ln 731 * 100) = 89.51"
  using longevity_single [OF assms] longevity_366 by simp

theorem longevity_after_one_year_witness:
  "timeStamp \<lparr>timeStamp = 1668464000, tx_to = addr_d, tx_value = 1000000000000000000\<rparr> =
     1700000000 - 365 * 86400 \<and>
   calculate_longevity_score 1700000000
     \<lparr>tx_has_to = True,
      tx_rows = [\<lparr>timeStamp = 1668464000, tx_to = addr_d, tx_value = 1000000000000000000\<rparr>]\<rparr> =
     89.51"
proof -
  have t: "timeStamp \<lparr>timeStamp = 1668464000, tx_to = addr_d, tx_value = 1000000000000000000\<rparr> =
     1700000000 - 365 * 86400"
    by simp
  from t longevity_after_one_year [OF t, of True] show ?thesis by simp
qed

text \<open>
  The claim as stated gives approximately 88.89 for this score; it is 89.51, more than
  0.6 away.
\<close>

theorem longevity_after_one_year_counterexample:
  "calculate_longevity_score 1700000000
     \<lparr>tx_has_to = True,
      tx_rows = [\<lparr>timeStamp = 1668464000, tx_to = addr_d, tx_value = 1000000000000000000\<rparr>]\<rparr> =
     89.51 \<and>
   \<bar>calculate_longevity_score 1700000000
     \<lparr>tx_has_to = True,
      tx_rows = [\<lparr>timeStamp = 1668464000, tx_to = addr_d, tx_value = 1000000000000000000\<rparr>]\<rparr> -
     88.89\<bar> > 0.6"
proof -
  have "calculate_longevity_score 1700000000
     \<lparr>tx_has_to = True,
      tx_rows = [\<lparr>timeStamp = 1668464000, tx_to = addr_d, tx_value = 1000000000000000000\<rparr>]\<rparr> =
     89.51"
    using longevity_single [of "\<lparr>timeStamp = 1668464000, tx_to = addr_d, tx_value = 1000000000000000000\<rparr>" 1700000000 True]
      longevity_366 by simp
  then show ?thesis by simp
qed

end
